theory Spec2Isabelle
  imports Main
begin

section \<open>Regular expressions as used by \<open>src/lib/stats.ts\<close>\<close>

text \<open>
  The two patterns of \<open>filterCompilerOptions\<close> use only anchors, character classes,
  literal characters, sequencing and alternation. A pattern is run from a position of the
  subject string; a position is the index reached together with the input still to be read.
  Without the multiline flag \<open>^\<close> holds at index 0 only and \<open>$\<close> at the end of the
  input only. Characters are single code units.
\<close>

datatype regex =
    Bol
  | Eol
  | Cls "char list"
  | Lit char
  | Cat regex regex
  | Alt regex regex

type_synonym position = "nat \<times> string"

fun rx_run :: "regex \<Rightarrow> position \<Rightarrow> position list" where
  "rx_run Bol (i, rest) = (if i = 0 then [(i, rest)] else [])"
| "rx_run Eol (i, rest) = (if rest = [] then [(i, rest)] else [])"
| "rx_run (Cls cs) (i, rest) =
     (case rest of [] \<Rightarrow> [] | c # rest' \<Rightarrow> if c \<in> set cs then [(Suc i, rest')] else [])"
| "rx_run (Lit d) (i, rest) =
     (case rest of [] \<Rightarrow> [] | c # rest' \<Rightarrow> if c = d then [(Suc i, rest')] else [])"
| "rx_run (Cat r1 r2) p = concat (map (rx_run r2) (rx_run r1 p))"
| "rx_run (Alt r1 r2) p = rx_run r1 p @ rx_run r2 p"

text \<open>
  \<open>RegExp.prototype.exec\<close> tries every start index from 0 to the length of the subject
  and returns a match array (truthy) at the first index where the pattern matches, and
  \<open>null\<close> (falsy) when there is none. Only the truthiness of the result is used.
\<close>

definition rx_exec :: "regex \<Rightarrow> string \<Rightarrow> bool" where
  "rx_exec r x = list_ex (\<lambda>i. rx_run r (i, drop i x) \<noteq> []) [0..<Suc (length x)]"

section \<open>\<open>filterCompilerOptions\<close>\<close>

text \<open>\<open>const capturableArg = /^[-/]/;\<close>\<close>

definition capturableArg :: regex where
  "capturableArg = Cat Bol (Cls ''-/'')"

text \<open>\<open>const unwantedArg = /^(([-/][iIdD])|(-$))/;\<close>\<close>

definition unwantedArg :: regex where
  "unwantedArg = Cat Bol (Alt (Cat (Cls ''-/'') (Cls ''iIdD'')) (Cat (Lit CHR ''-'') Eol))"

text \<open>\<open>return args.filter(x => capturableArg.exec(x) && !unwantedArg.exec(x));\<close>\<close>

definition filterCompilerOptions :: "string list \<Rightarrow> string list" where
  "filterCompilerOptions args =
     filter (\<lambda>x. rx_exec capturableArg x \<and> \<not> rx_exec unwantedArg x) args"

text \<open>
  The description of the kept tokens in words: a token is kept when it begins with
  \<open>-\<close> or \<open>/\<close>, begins with none of the eight two-character prefixes, and is not the
  token \<open>-\<close> itself.
\<close>

definition begins_with :: "string \<Rightarrow> string \<Rightarrow> bool" where
  "begins_with p x = (take (length p) x = p)"

definition unwanted_prefixes :: "string list" where
  "unwanted_prefixes = [''-i'', ''-I'', ''-d'', ''-D'', ''/i'', ''/I'', ''/d'', ''/D'']"

definition kept_token :: "string \<Rightarrow> bool" where
  "kept_token x =
     ((begins_with ''-'' x \<or> begins_with ''/'' x)
      \<and> \<not> list_ex (\<lambda>p. begins_with p x) unwanted_prefixes
      \<and> x \<noteq> ''-'')"

section \<open>JavaScript values, numbers and dates\<close>

text \<open>
  A request carries values of no fixed shape (\<open>any\<close>, \<open>Record<string, any>\<close>). An object
  is the list of its own enumerable entries in enumeration order, which is what
  \<open>Object.entries\<close> returns and what \<open>Object.fromEntries\<close> rebuilds. Numbers that occur
  here (calendar fields, millisecond counts) are integers.
\<close>

datatype jsval =
    JUndefined
  | JNull
  | JBool bool
  | JNum int
  | JStr string
  | JArr "jsval list"
  | JObj "(string \<times> jsval) list"

text \<open>\<open>typeof v === 'boolean'\<close>\<close>

fun typeof_boolean :: "jsval \<Rightarrow> bool" where
  "typeof_boolean (JBool b) = True"
| "typeof_boolean v = False"

text \<open>
  Decimal digits of a natural number, as a template literal prints an integer of magnitude
  below \<open>10^21\<close>. Larger numbers, which JavaScript prints in exponent form, and fractions
  are outside what is modelled; the calendar fields and millisecond settings printed here
  are far below that bound.
\<close>

definition digit_char :: "nat \<Rightarrow> char" where
  "digit_char d = ''0123456789'' ! (d mod 10)"

function decimal :: "nat \<Rightarrow> string" where
  "decimal n = (if n < 10 then [digit_char n] else decimal (n div 10) @ [digit_char (n mod 10)])"
  by pat_completeness auto
termination
  by (relation "measure id") auto

declare decimal.simps [simp del]

definition number_to_string :: "int \<Rightarrow> string" where
  "number_to_string i = (if i < 0 then CHR ''-'' # decimal (nat (- i)) else decimal (nat i))"

text \<open>Zero padding on the left to a width, as \<open>toISOString\<close> pads its fields.\<close>

definition pad_start :: "nat \<Rightarrow> nat \<Rightarrow> string" where
  "pad_start w n = replicate (w - length (decimal n)) CHR ''0'' @ decimal n"

text \<open>
  A \<open>Date\<close> is its time value: milliseconds since 1970-01-01T00:00:00Z, as \<open>new Date()\<close>
  reads it off the clock. The UTC getters follow the abstract operations of ECMAScript:
  \<open>Day\<close>, \<open>YearFromTime\<close>, \<open>MonthFromTime\<close> (0 for January up to 11 for December),
  \<open>DateFromTime\<close> (1 to 31) and the time-within-day fields. The calendar fields are computed
  from the day number by the usual era arithmetic on the proleptic Gregorian calendar, with
  years counted from 1 March.
\<close>

type_synonym Date = int

definition msPerDay :: int where
  "msPerDay = 86400000"

definition Day :: "Date \<Rightarrow> int" where
  "Day t = t div msPerDay"

definition day_of_era :: "Date \<Rightarrow> int" where
  "day_of_era t = (Day t + 719468) mod 146097"

definition year_of_era :: "Date \<Rightarrow> int" where
  "year_of_era t =
     (let doe = day_of_era t
      in (doe - doe div 1460 + doe div 36524 - doe div 146096) div 365)"

definition day_of_march_year :: "Date \<Rightarrow> int" where
  "day_of_march_year t =
     (let yoe = year_of_era t
      in day_of_era t - (365 * yoe + yoe div 4 - yoe div 100))"

definition march_month :: "Date \<Rightarrow> int" where
  "march_month t = (5 * day_of_march_year t + 2) div 153"

definition MonthFromTime :: "Date \<Rightarrow> int" where
  "MonthFromTime t = (let mp = march_month t in if mp < 10 then mp + 2 else mp - 10)"

definition DateFromTime :: "Date \<Rightarrow> int" where
  "DateFromTime t = day_of_march_year t - (153 * march_month t + 2) div 5 + 1"

definition YearFromTime :: "Date \<Rightarrow> int" where
  "YearFromTime t =
     year_of_era t + ((Day t + 719468) div 146097) * 400
       + (if MonthFromTime t \<le> 1 then 1 else 0)"

definition getUTCFullYear :: "Date \<Rightarrow> int" where
  "getUTCFullYear t = YearFromTime t"

definition getUTCMonth :: "Date \<Rightarrow> int" where
  "getUTCMonth t = MonthFromTime t"

definition getUTCDate :: "Date \<Rightarrow> int" where
  "getUTCDate t = DateFromTime t"

definition HourFromTime :: "Date \<Rightarrow> int" where
  "HourFromTime t = (t div 3600000) mod 24"

definition MinFromTime :: "Date \<Rightarrow> int" where
  "MinFromTime t = (t div 60000) mod 60"

definition SecFromTime :: "Date \<Rightarrow> int" where
  "SecFromTime t = (t div 1000) mod 60"

definition msFromTime :: "Date \<Rightarrow> int" where
  "msFromTime t = t mod 1000"

text \<open>
  \<open>Date.prototype.toISOString\<close>: \<open>YYYY-MM-DDTHH:mm:ss.sssZ\<close>, the month printed as
  \<open>MonthFromTime + 1\<close>; a year outside 0 to 9999 is printed with a sign and six digits.
\<close>

definition iso_year :: "int \<Rightarrow> string" where
  "iso_year y =
     (if 0 \<le> y \<and> y \<le> 9999 then pad_start 4 (nat y)
      else (if y < 0 then ''-'' else ''+'') @ pad_start 6 (nat \<bar>y\<bar>))"

definition toISOString :: "Date \<Rightarrow> string" where
  "toISOString t =
     iso_year (YearFromTime t) @ ''-'' @ pad_start 2 (nat (MonthFromTime t + 1)) @ ''-''
       @ pad_start 2 (nat (DateFromTime t)) @ ''T'' @ pad_start 2 (nat (HourFromTime t)) @ '':''
       @ pad_start 2 (nat (MinFromTime t)) @ '':'' @ pad_start 2 (nat (SecFromTime t)) @ ''.''
       @ pad_start 3 (nat (msFromTime t)) @ ''Z''"

section \<open>Requests and compilation records\<close>

text \<open>
  \<open>ParsedRequest\<close> is declared in \<open>handlers/compile\<close>; \<open>stats.ts\<close> reads its \<open>source\<close>,
  \<open>executionParameters\<close>, \<open>options\<close>, \<open>filters\<close> and \<open>bypassCache\<close>, and names \<open>tools\<close>
  and \<open>libraries\<close> as fields it leaves out. Any further field lives in the record's
  extension.
\<close>

record ParsedRequest =
  source :: string
  options :: "string list"
  filters :: "(string \<times> jsval) list"
  bypassCache :: bool
  tools :: jsval
  executionParameters :: jsval
  libraries :: "jsval list"

text \<open>
  \<open>type CompilationRecord = {time; sourceHash; executionParamsHash; options; filters;
  bypassCache}\<close>. The field names are suffixed where they would clash with those of
  the request.
\<close>

record CompilationRecord =
  time :: string
  sourceHash :: string
  executionParamsHash :: string
  options_rec :: "string list"
  filters_rec :: "(string \<times> jsval) list"
  bypassCache_rec :: bool

text \<open>
  \<open>makeSafe\<close>. \<open>getHash\<close> comes from \<open>utils\<close> and is a parameter; it is applied to the
  source string and to the execution parameters object.
  \<open>Object.fromEntries(Object.entries(request.filters).filter(value => typeof value[1] === 'boolean'))\<close>
  keeps the entries whose value is a boolean, in order.
\<close>

definition makeSafe ::
  "(jsval \<Rightarrow> string) \<Rightarrow> Date \<Rightarrow> 'a ParsedRequest_scheme \<Rightarrow> CompilationRecord" where
  "makeSafe getHash t request =
     \<lparr> time = toISOString t,
       sourceHash = getHash (JStr (source request)),
       executionParamsHash = getHash (executionParameters request),
       options_rec = filterCompilerOptions (options request),
       filters_rec = filter (\<lambda>value. typeof_boolean (snd value)) (filters request),
       bypassCache_rec = bypassCache request \<rparr>"

text \<open>
  \<open>makeKey\<close>:
  \<open>`year=${now.getUTCFullYear()}/month=${now.getUTCMonth()}/date=${now.getUTCDate()}/${now.toISOString()}.json`\<close>
\<close>

definition makeKey :: "Date \<Rightarrow> string" where
  "makeKey now =
     ''year='' @ number_to_string (getUTCFullYear now)
       @ ''/month='' @ number_to_string (getUTCMonth now)
       @ ''/date='' @ number_to_string (getUTCDate now)
       @ ''/'' @ toISOString now @ ''.json''"

section \<open>Properties, effects and the stats noter\<close>

text \<open>
  A property value is a string, a number or a boolean; \<open>PUndefined\<close> is what a getter
  returns for a property that is not set when no default is given.
\<close>

datatype PropertyValue =
    PUndefined
  | PString string
  | PNumber int
  | PBoolean bool

text \<open>How a template literal prints a property value.\<close>

fun template_str :: "PropertyValue \<Rightarrow> string" where
  "template_str PUndefined = ''undefined''"
| "template_str (PString s) = s"
| "template_str (PNumber n) = number_to_string n"
| "template_str (PBoolean b) = (if b then ''true'' else ''false'')"

type_synonym PropertyGetter = "string \<rightharpoonup> PropertyValue"

text \<open>
  Modelled from the spec: the \<open>PropertyGetter\<close> of \<open>properties.interfaces\<close> is not among
  the sources. The operator configuration is "plain key/value settings", read with a
  default that stands in when the key is absent: the settings are a partial map and
  \<open>props(key, default)\<close> is the value set for the key, or the default.
\<close>

definition props :: "PropertyGetter \<Rightarrow> string \<Rightarrow> PropertyValue \<Rightarrow> PropertyValue" where
  "props p key dflt = (case p key of None \<Rightarrow> dflt | Some v \<Rightarrow> v)"

text \<open>\<open>StorageClass\<close> of the S3 client; only \<open>REDUCED_REDUNDANCY\<close> is used here.\<close>

datatype StorageClass = STANDARD | REDUCED_REDUNDANCY

text \<open>\<open>new S3Bucket(bucket, region)\<close>: the handle keeps the two arguments.\<close>

record S3Bucket =
  bucket :: PropertyValue
  region :: PropertyValue

text \<open>
  The handle returned by \<open>setTimeout(() => this.flush(), ms)\<close>: the only callback ever
  scheduled is the flush, so the handle records the delay it was scheduled with.
\<close>

datatype Timeout = FlushTimeout PropertyValue

text \<open>
  What an operation does to the outside, in program order: log lines, the object-store
  write \<open>put(key, body, path, {redundancy})\<close>, and timer calls.
\<close>

datatype effect =
    LoggerInfo string
  | LoggerWarn string
  | S3Put string string PropertyValue StorageClass
  | SetTimeout Timeout
  | ClearTimeout Timeout

fun is_put :: "effect \<Rightarrow> bool" where
  "is_put (S3Put k b p c) = True"
| "is_put e = False"

record StatsNoter =
  statsQueue :: "CompilationRecord list"
  flushAfterMs :: PropertyValue
  flushJob :: "Timeout option"
  s3 :: S3Bucket
  path :: PropertyValue

text \<open>The constructor of \<open>StatsNoter\<close>; \<open>5 * 60 * 1000\<close> is written as in the source.\<close>

definition StatsNoter_new :: "PropertyGetter \<Rightarrow> effect list \<times> StatsNoter" where
  "StatsNoter_new p =
     (let flushMs = props p ''compilationStatsNotifierFlushMs'' (PNumber (5 * 60 * 1000));
          b = props p ''compilationStatsNotifierS3Bucket'' PUndefined;
          bkt = \<lparr> bucket = b, region = props p ''compilationStatsNotifierS3Region'' (PString ''us-east-1'') \<rparr>;
          pth = props p ''compilationStatsNotifierS3Path'' (PString ''compile-stats'')
      in ([LoggerInfo (''Flushing stats to '' @ template_str b @ ''/'' @ template_str pth
                         @ '' every '' @ template_str flushMs @ ''ms'')],
          \<lparr> statsQueue = [], flushAfterMs = flushMs, flushJob = None, s3 = bkt, path = pth \<rparr>))"

text \<open>\<open>xs.join(sep)\<close>\<close>

fun join :: "string \<Rightarrow> string list \<Rightarrow> string" where
  "join sep [] = []"
| "join sep [x] = x"
| "join sep (x # y # ys) = x @ sep @ join sep (y # ys)"

text \<open>An array is an object and every object is truthy, the empty array too.\<close>

definition array_truthy :: "'a list \<Rightarrow> bool" where
  "array_truthy xs = True"

text \<open>
  \<open>flush\<close>, in the three steps of its body: take the queue and replace it by the empty
  array; write what was taken; clear the timer. \<open>JSON.stringify\<close> is a parameter;
  \<open>Buffer.from\<close> of a string is the string's bytes. The promise returned by \<open>put\<close> settles
  later, see \<open>put_settled\<close>.
\<close>

definition flush_take :: "StatsNoter \<Rightarrow> CompilationRecord list \<times> StatsNoter" where
  "flush_take this = (statsQueue this, this\<lparr>statsQueue := []\<rparr>)"

definition flush_write ::
  "(CompilationRecord \<Rightarrow> string) \<Rightarrow> Date \<Rightarrow> CompilationRecord list \<Rightarrow> StatsNoter
     \<Rightarrow> effect list \<times> StatsNoter" where
  "flush_write stringify now toFlush this =
     (if array_truthy toFlush
      then ([S3Put (makeKey now) (join [CHR 0x0A] (map stringify toFlush)) (path this)
               REDUCED_REDUNDANCY], this)
      else ([], this))"

definition flush_clear :: "StatsNoter \<Rightarrow> effect list \<times> StatsNoter" where
  "flush_clear this =
     (case flushJob this of
        Some job \<Rightarrow> ([ClearTimeout job], this\<lparr>flushJob := None\<rparr>)
      | None \<Rightarrow> ([], this))"

definition flush ::
  "(CompilationRecord \<Rightarrow> string) \<Rightarrow> Date \<Rightarrow> StatsNoter \<Rightarrow> effect list \<times> StatsNoter" where
  "flush stringify now this =
     (case flush_take this of (toFlush, this1) \<Rightarrow>
      case flush_write stringify now toFlush this1 of (written, this2) \<Rightarrow>
      case flush_clear this2 of (cleared, this3) \<Rightarrow>
        (written @ cleared, this3))"

text \<open>
  The two continuations of the write: \<open>.then(() => {})\<close> does nothing, \<open>.catch(e => ...)\<close> logs
  a warning with the key of the time of the failure and the printed error.
\<close>

datatype put_result = Fulfilled | Rejected string

fun put_settled :: "Date \<Rightarrow> put_result \<Rightarrow> StatsNoter \<Rightarrow> effect list \<times> StatsNoter" where
  "put_settled now Fulfilled this = ([], this)"
| "put_settled now (Rejected e) this =
     ([LoggerWarn (''Caught exception trying to log compilations to '' @ makeKey now @ '': '' @ e)],
      this)"

text \<open>\<open>noteCompilation\<close>: an undefined \<open>_flushJob\<close> is falsy, a timer handle is truthy.\<close>

definition noteCompilation ::
  "(jsval \<Rightarrow> string) \<Rightarrow> Date \<Rightarrow> 'a ParsedRequest_scheme \<Rightarrow> StatsNoter \<Rightarrow> effect list \<times> StatsNoter" where
  "noteCompilation getHash now request this =
     (let this1 = this\<lparr>statsQueue := statsQueue this @ [makeSafe getHash now request]\<rparr>
      in case flushJob this1 of
           None \<Rightarrow>
             ([SetTimeout (FlushTimeout (flushAfterMs this1))],
              this1\<lparr>flushJob := Some (FlushTimeout (flushAfterMs this1))\<rparr>)
         | Some job \<Rightarrow> ([], this1))"

text \<open>\<open>createStatsNoter\<close>: the \<open>switch\<close> compares with \<open>===\<close>; the \<open>throw\<close> is the left injection.\<close>

datatype IStatsNoter = NullStatsNoter | S3StatsNoter StatsNoter

datatype error = Error string

definition createStatsNoter :: "PropertyGetter \<Rightarrow> error + effect list \<times> IStatsNoter" where
  "createStatsNoter p =
     (let type = props p ''compilationStatsNotifier'' (PString [])
      in if type = PString ''none'' then Inr ([], NullStatsNoter)
         else if type = PString ''S3''
           then (case StatsNoter_new p of (es, noter) \<Rightarrow> Inr (es, S3StatsNoter noter))
         else Inl (Error (''Unknown stats type '' @ [CHR 0x27] @ template_str type @ [CHR 0x27])))"

section \<open>The emitter as an event loop\<close>

text \<open>
  The noter runs on one thread: each callback runs to completion. Three things happen to
  it: a compilation is noted, the flush timer fires, the promise of a write settles. A
  timer that was never set or was cleared does not fire.
\<close>

datatype event =
    Note Date ParsedRequest
  | TimerFired Date
  | PutSettled Date put_result

fun emitter_step ::
  "(jsval \<Rightarrow> string) \<Rightarrow> (CompilationRecord \<Rightarrow> string) \<Rightarrow> event \<Rightarrow> StatsNoter
     \<Rightarrow> effect list \<times> StatsNoter" where
  "emitter_step getHash stringify (Note now request) this = noteCompilation getHash now request this"
| "emitter_step getHash stringify (TimerFired now) this =
     (case flushJob this of None \<Rightarrow> ([], this) | Some job \<Rightarrow> flush stringify now this)"
| "emitter_step getHash stringify (PutSettled now r) this = put_settled now r this"

fun emitter_run ::
  "(jsval \<Rightarrow> string) \<Rightarrow> (CompilationRecord \<Rightarrow> string) \<Rightarrow> event list \<Rightarrow> StatsNoter
     \<Rightarrow> effect list \<times> StatsNoter" where
  "emitter_run getHash stringify [] this = ([], this)"
| "emitter_run getHash stringify (e # es) this =
     (case emitter_step getHash stringify e this of (fx, this1) \<Rightarrow>
      case emitter_run getHash stringify es this1 of (fx', this2) \<Rightarrow> (fx @ fx', this2))"


section \<open>The production settings\<close>

text \<open>
  The settings file for the EC2 instances, with the keys used below. The properties
  reader turns a value made of digits into a number; the other values stay strings.
\<close>

definition production_properties :: PropertyGetter where
  "production_properties = map_of
     [(''compileTimeoutMs'', PNumber 20000),
      (''maxConcurrentCompiles'', PNumber 2),
      (''proxyRetries'', PNumber 10),
      (''proxyRetryMs'', PNumber 500),
      (''compilationStatsNotifier'',
         PString ''S3(compiler-explorer-logs,compile-stats,us-east-1,15m)''),
      (''compilationStaleAfterMs'', PNumber 60000)]"

text \<open>The total retry budget: the number of retries times the delay between attempts.\<close>

definition retry_budget :: "PropertyGetter \<Rightarrow> int option" where
  "retry_budget p =
     (case (p ''proxyRetries'', p ''proxyRetryMs'') of
        (Some (PNumber n), Some (PNumber d)) \<Rightarrow> Some (n * d)
      | _ \<Rightarrow> None)"

definition stale_deadline :: "PropertyGetter \<Rightarrow> int option" where
  "stale_deadline p =
     (case p ''compilationStaleAfterMs'' of Some (PNumber n) \<Rightarrow> Some n | _ \<Rightarrow> None)"

section \<open>The registry of in-flight work\<close>

text \<open>
  The orchestrator (the compile handler and the compiler base class) is not among the
  sources; this section follows the spec. It describes "a registry of in-flight work keyed
  by Fingerprint, exclusively owned by the orchestrator, mutated under a single
  serialization point", whose mutations register, attach and remove are atomic, so that an
  interleaving of requests is a sequence of such steps.
\<close>

type_synonym Fingerprint = string

type_synonym caller = nat

datatype work_kind = PendingSlot | RemoteJob

datatype orch_event =
    Arrive caller Fingerprint work_kind
  | Complete Fingerprint
  | Abandon Fingerprint

record orchestrator =
  registry :: "Fingerprint \<rightharpoonup> work_kind \<times> caller list"
  executing :: "Fingerprint list"

text \<open>
  Modelled from the spec: the orchestrator's state at start. The registry maps a
  Fingerprint to its outstanding unit of work (a local PendingSlot or a RemoteJob) and the
  callers attached to it; the executions in progress (Compiler Driver or remote worker
  invocations) are a list of their own, so that a duplicate would show.
\<close>

definition orch_init :: orchestrator where
  "orch_init = \<lparr> registry = Map.empty, executing = [] \<rparr>"

text \<open>
  Modelled from the spec: remove. A PendingSlot is "destroyed when the Compiler Driver call
  returns or fails", a RemoteJob is owned "until its matching completion event arrives or it
  times out": the unit leaves the registry and its execution is no longer in progress.
\<close>

definition remove_unit :: "Fingerprint \<Rightarrow> orchestrator \<Rightarrow> orchestrator" where
  "remove_unit f s =
     (case registry s f of
        None \<Rightarrow> s
      | Some u \<Rightarrow> s\<lparr>registry := (registry s)(f := None), executing := remove1 f (executing s)\<rparr>)"

text \<open>
  Modelled from the spec: one atomic step. A request that arrives while a unit of work for
  its Fingerprint exists "must attach to the existing slot's eventual result instead of
  acquiring a new slot"; one that finds none registers a unit and starts its execution.
  Completion removes the unit; so does abandonment by the Staleness Guard, after which "a
  retried client request ... starts a new unit of work".
\<close>

fun orch_step :: "orch_event \<Rightarrow> orchestrator \<Rightarrow> orchestrator" where
  "orch_step (Arrive c f k) s =
     (case registry s f of
        Some (k', cs) \<Rightarrow> s\<lparr>registry := (registry s)(f \<mapsto> (k', cs @ [c]))\<rparr>
      | None \<Rightarrow> s\<lparr>registry := (registry s)(f \<mapsto> (k, [c])), executing := executing s @ [f]\<rparr>)"
| "orch_step (Complete f) s = remove_unit f s"
| "orch_step (Abandon f) s = remove_unit f s"

text \<open>Modelled from the spec: the steps of an interleaving, one after the other.\<close>

fun orch_run :: "orch_event list \<Rightarrow> orchestrator \<Rightarrow> orchestrator" where
  "orch_run [] s = s"
| "orch_run (e # es) s = orch_run es (orch_step e s)"

text \<open>
  Modelled from the spec: the invariant that carries the claim through a step. No
  Fingerprint executes twice, and the Fingerprints executing are those registered.
\<close>

definition orch_inv :: "orchestrator \<Rightarrow> bool" where
  "orch_inv s = (distinct (executing s) \<and> set (executing s) = dom (registry s))"

section \<open>Properties of the option filter\<close>

lemma rx_run_Bol_later: "0 < i \<Longrightarrow> rx_run (Cat Bol r) (i, rest) = []"
  by simp

lemma rx_exec_anchored: "rx_exec (Cat Bol r) x = (rx_run r (0, x) \<noteq> [])"
proof -
  have "list_ex (\<lambda>i. rx_run (Cat Bol r) (i, drop i x) \<noteq> []) [0..<Suc (length x)]
        = (rx_run (Cat Bol r) (0, drop 0 x) \<noteq> [])"
    unfolding list_ex_iff
  proof
    assume "\<exists>i\<in>set [0..<Suc (length x)]. rx_run (Cat Bol r) (i, drop i x) \<noteq> []"
    then obtain i where i: "rx_run (Cat Bol r) (i, drop i x) \<noteq> []" by blast
    have "i = 0"
    proof (rule ccontr)
      assume "i \<noteq> 0"
      then have "rx_run (Cat Bol r) (i, drop i x) = []" by (simp add: rx_run_Bol_later)
      with i show False by contradiction
    qed
    with i show "rx_run (Cat Bol r) (0, drop 0 x) \<noteq> []" by simp
  next
    assume "rx_run (Cat Bol r) (0, drop 0 x) \<noteq> []"
    moreover have "0 \<in> set [0..<Suc (length x)]" by simp
    ultimately show "\<exists>i\<in>set [0..<Suc (length x)]. rx_run (Cat Bol r) (i, drop i x) \<noteq> []"
      by blast
  qed
  then show ?thesis by (simp add: rx_exec_def)
qed

lemma capturableArg_exec:
  "rx_exec capturableArg x = (begins_with ''-'' x \<or> begins_with ''/'' x)"
  unfolding capturableArg_def rx_exec_anchored
  by (cases x) (auto simp: begins_with_def)

lemma unwantedArg_exec:
  "rx_exec unwantedArg x = (list_ex (\<lambda>p. begins_with p x) unwanted_prefixes \<or> x = ''-'')"
proof (cases x)
  case Nil
  then show ?thesis
    unfolding unwantedArg_def rx_exec_anchored
    by (simp add: begins_with_def unwanted_prefixes_def)
next
  case (Cons c cs)
  show ?thesis
  proof (cases cs)
    case Nil
    with Cons show ?thesis
      unfolding unwantedArg_def rx_exec_anchored
      by (simp add: begins_with_def unwanted_prefixes_def)
  next
    case (Cons d ds)
    with \<open>x = c # cs\<close> show ?thesis
      unfolding unwantedArg_def rx_exec_anchored
      by (auto simp: begins_with_def unwanted_prefixes_def)
  qed
qed

text \<open>
  Claim C9. For every list of option tokens, \<open>filterCompilerOptions\<close> returns exactly the
  tokens that begin with \<open>-\<close> or \<open>/\<close>, leaving out every token that begins with one of
  \<open>-i -I -d -D /i /I /d /D\<close> and the token that is exactly \<open>-\<close>; the kept tokens stay in
  their relative order (the result is the order-preserving \<open>filter\<close> of the argument).
\<close>

theorem filterCompilerOptions_kept:
  "filterCompilerOptions args = filter kept_token args"
  unfolding filterCompilerOptions_def kept_token_def
  by (rule filter_cong) (auto simp: capturableArg_exec unwantedArg_exec)

section \<open>The stats projection\<close>

text \<open>
  The filter on a list with every kind of token: kept flags, an include path, a define,
  the lone dash, the lone slash, a file name, the empty string, and a dash that is not at
  the start.
\<close>

theorem filterCompilerOptions_kept_witness:
  "filterCompilerOptions [''-O2'', ''-Iinc'', ''-'', ''/'', ''foo'', ''/DX'', ''-std=c++17'', [], ''x-i'']
     = [''-O2'', ''/'', ''-std=c++17'']"
  using filterCompilerOptions_kept [of "[''-O2'', ''-Iinc'', ''-'', ''/'', ''foo'', ''/DX'', ''-std=c++17'', [], ''x-i'']"]
  by (simp add: kept_token_def begins_with_def unwanted_prefixes_def)

text \<open>
  Claim C2. The stats projection is determined by the declared fields only: two requests
  that agree on \<open>source\<close>, \<open>executionParameters\<close>, \<open>options\<close>, \<open>filters\<close> and
  \<open>bypassCache\<close> have the same record at the same time, whatever their \<open>tools\<close>,
  \<open>libraries\<close> and further fields are. The record has the six fields \<open>time\<close>,
  \<open>sourceHash\<close>, \<open>executionParamsHash\<close>, \<open>options\<close>, \<open>filters\<close>, \<open>bypassCache\<close>, and the
  source and the execution parameters enter it through \<open>getHash\<close> only.
\<close>

theorem makeSafe_determined:
  "source r1 = source r2 \<Longrightarrow> executionParameters r1 = executionParameters r2 \<Longrightarrow>
   options r1 = options r2 \<Longrightarrow> filters r1 = filters r2 \<Longrightarrow> bypassCache r1 = bypassCache r2 \<Longrightarrow>
   makeSafe getHash t r1 = makeSafe getHash t r2
   \<and> makeSafe getHash t r1 =
       \<lparr> time = toISOString t,
         sourceHash = getHash (JStr (source r1)),
         executionParamsHash = getHash (executionParameters r1),
         options_rec = filterCompilerOptions (options r1),
         filters_rec = filter (\<lambda>value. typeof_boolean (snd value)) (filters r1),
         bypassCache_rec = bypassCache r1 \<rparr>"
  by (simp add: makeSafe_def)

text \<open>
  Two requests that differ in \<open>tools\<close> and \<open>libraries\<close> only, with a toy digest.
\<close>

theorem makeSafe_determined_witness:
  "makeSafe (\<lambda>v. case v of JStr s \<Rightarrow> decimal (length s) | _ \<Rightarrow> ''obj'') 1705314600000
     \<lparr> source = ''int main() {}'', options = [''-O2'', ''-DSECRET=1'', ''a.c''],
       filters = [(''binary'', JBool False), (''execute'', JBool True), (''maxLines'', JNum 5)],
       bypassCache = False, tools = JArr [], executionParameters = JObj [(''stdin'', JStr ''x'')],
       libraries = [] \<rparr>
   = makeSafe (\<lambda>v. case v of JStr s \<Rightarrow> decimal (length s) | _ \<Rightarrow> ''obj'') 1705314600000
     \<lparr> source = ''int main() {}'', options = [''-O2'', ''-DSECRET=1'', ''a.c''],
       filters = [(''binary'', JBool False), (''execute'', JBool True), (''maxLines'', JNum 5)],
       bypassCache = False, tools = JArr [JStr ''clangtidy''],
       executionParameters = JObj [(''stdin'', JStr ''x'')],
       libraries = [JStr ''boost''] \<rparr>"
  using makeSafe_determined [of
     "\<lparr> source = ''int main() {}'', options = [''-O2'', ''-DSECRET=1'', ''a.c''],
       filters = [(''binary'', JBool False), (''execute'', JBool True), (''maxLines'', JNum 5)],
       bypassCache = False, tools = JArr [], executionParameters = JObj [(''stdin'', JStr ''x'')],
       libraries = [] \<rparr>"
     "\<lparr> source = ''int main() {}'', options = [''-O2'', ''-DSECRET=1'', ''a.c''],
       filters = [(''binary'', JBool False), (''execute'', JBool True), (''maxLines'', JNum 5)],
       bypassCache = False, tools = JArr [JStr ''clangtidy''],
       executionParameters = JObj [(''stdin'', JStr ''x'')],
       libraries = [JStr ''boost''] \<rparr>"
     "\<lambda>v. case v of JStr s \<Rightarrow> decimal (length s) | _ \<Rightarrow> ''obj''" 1705314600000]
  by simp

section \<open>Noting and flushing\<close>



lemma flush_puts:
  "filter is_put (fst (flush stringify now this))
     = [S3Put (makeKey now) (join [CHR 0x0A] (map stringify (statsQueue this))) (path this)
          REDUCED_REDUNDANCY]"
  by (simp add: flush_def flush_take_def flush_write_def flush_clear_def array_truthy_def
      split: option.splits)

lemma flush_queue: "statsQueue (snd (flush stringify now this)) = []"
  by (simp add: flush_def flush_take_def flush_write_def flush_clear_def array_truthy_def
      split: option.splits)

lemma put_settled_state: "snd (put_settled t r this) = this"
  by (cases r) simp_all

lemma put_settled_no_put: "filter is_put (fst (put_settled t r this)) = []"
  by (cases r) simp_all



lemma emitter_run_Cons_snd:
  "snd (emitter_run getHash stringify (e # es) this)
     = snd (emitter_run getHash stringify es (snd (emitter_step getHash stringify e this)))"
  by (simp split: prod.splits)

lemma emitter_run_settled:
  "snd (emitter_run getHash stringify (map (\<lambda>(t, r). PutSettled t r) rs) this) = this"
proof (induction rs arbitrary: this)
  case Nil
  show ?case by simp
next
  case (Cons x xs)
  obtain t r where x: "x = (t, r)" by (cases x)
  have "snd (emitter_step getHash stringify (PutSettled t r) this) = this"
    by (simp add: put_settled_state)
  with Cons.IH [of this] show ?case
    by (simp only: x list.map prod.case emitter_run_Cons_snd)
qed



text \<open>
  Claim C4. After \<open>flush\<close> the queue is empty. The queue is taken and replaced by the
  empty array in the first step of \<open>flush\<close>, and the write is issued from the noter whose
  queue is already empty. When the write
  settles, with success or with failure and in whatever state the noter is by then, the
  noter is left as it is and no write is issued: a failure adds one warning to the log and
  nothing else, so the flushed records never come back into the queue.
\<close>

theorem flush_clears_queue:
  "statsQueue (snd (flush stringify now this)) = []
   \<and> fst (flush_take this) = statsQueue this
   \<and> statsQueue (snd (flush_take this)) = []
   \<and> flush stringify now this
       = (case flush_write stringify now (statsQueue this) (this\<lparr>statsQueue := []\<rparr>) of
            (written, this2) \<Rightarrow>
              case flush_clear this2 of (cleared, this3) \<Rightarrow> (written @ cleared, this3))
   \<and> snd (put_settled t r later) = later
   \<and> filter is_put (fst (put_settled t r later)) = []
   \<and> fst (put_settled t Fulfilled later) = []
   \<and> fst (put_settled t (Rejected e) later)
       = [LoggerWarn (''Caught exception trying to log compilations to '' @ makeKey t @ '': '' @ e)]
   \<and> statsQueue (snd (emitter_run getHash stringify (map (\<lambda>(t, r). PutSettled t r) rs)
                        (snd (flush stringify now this)))) = []"
proof -
  have steps: "flush stringify now this
       = (case flush_write stringify now (statsQueue this) (this\<lparr>statsQueue := []\<rparr>) of
            (written, this2) \<Rightarrow>
              case flush_clear this2 of (cleared, this3) \<Rightarrow> (written @ cleared, this3))"
    by (simp add: flush_def flush_take_def)
  have rest: "statsQueue (snd (flush stringify now this)) = []
      \<and> fst (flush_take this) = statsQueue this
      \<and> statsQueue (snd (flush_take this)) = []
      \<and> snd (put_settled t r later) = later
      \<and> filter is_put (fst (put_settled t r later)) = []
      \<and> fst (put_settled t Fulfilled later) = []
      \<and> fst (put_settled t (Rejected e) later)
          = [LoggerWarn (''Caught exception trying to log compilations to '' @ makeKey t @ '': '' @ e)]
      \<and> statsQueue (snd (emitter_run getHash stringify (map (\<lambda>(t, r). PutSettled t r) rs)
                           (snd (flush stringify now this)))) = []"
    by (simp add: flush_queue flush_take_def put_settled_state put_settled_no_put
        emitter_run_settled)
  from steps rest show ?thesis by (simp only: simp_thms)
qed

lemma makeKey_january:
  "makeKey 1705314600000 = ''year=2024/month=0/date=15/2024-01-15T10:30:00.000Z.json''"
  by code_simp

text \<open>
  Claim C5, at a flush on 15 January 2024, 10:30 UTC (time value 1705314600000). The flush
  issues one write, with the records joined by newlines in queue order and the
  reduced-redundancy class, but the key's month is \<open>0\<close>: \<open>getUTCMonth\<close> counts from zero,
  while the timestamp in the same key says \<open>01\<close>.
\<close>

theorem flush_key_january:
  "toISOString 1705314600000 = ''2024-01-15T10:30:00.000Z''
   \<and> filter is_put (fst (flush stringify 1705314600000 this))
     = [S3Put ''year=2024/month=0/date=15/2024-01-15T10:30:00.000Z.json''
          (join [CHR 0x0A] (map stringify (statsQueue this))) (path this) REDUCED_REDUNDANCY]"
proof -
  have "toISOString 1705314600000 = ''2024-01-15T10:30:00.000Z''" by code_simp
  then show ?thesis by (simp only: flush_puts makeKey_january)
qed

text \<open>
  Claim C6. \<open>noteCompilation\<close> appends \<open>makeSafe\<close> of the request at the current time at the
  end of the queue and leaves the records before it as they were; it issues no write; its
  only effect is \<open>setTimeout\<close> with the flush interval when no timer is pending; and the
  noter changes in \<open>statsQueue\<close> and \<open>flushJob\<close> only, \<open>flushJob\<close> only when it was
  undefined.
\<close>

theorem noteCompilation_frame:
  "statsQueue (snd (noteCompilation getHash now request this))
     = statsQueue this @ [makeSafe getHash now request]
   \<and> take (length (statsQueue this)) (statsQueue (snd (noteCompilation getHash now request this)))
       = statsQueue this
   \<and> filter is_put (fst (noteCompilation getHash now request this)) = []
   \<and> fst (noteCompilation getHash now request this)
       = (case flushJob this of
            None \<Rightarrow> [SetTimeout (FlushTimeout (flushAfterMs this))]
          | Some job \<Rightarrow> [])
   \<and> snd (noteCompilation getHash now request this)
       = this\<lparr> statsQueue := statsQueue this @ [makeSafe getHash now request],
               flushJob := (case flushJob this of
                              None \<Rightarrow> Some (FlushTimeout (flushAfterMs this))
                            | Some job \<Rightarrow> Some job) \<rparr>"
  by (simp add: noteCompilation_def Let_def split: option.splits)

section \<open>Settings\<close>

text \<open>
  Claim C7. In the production settings \<open>proxyRetries\<close> is 10, \<open>proxyRetryMs\<close> is 500 and
  \<open>compilationStaleAfterMs\<close> is 60000: the retry budget is 5000 ms and does not exceed the
  staleness deadline.
\<close>

theorem retry_budget_within_deadline:
  "production_properties ''proxyRetries'' = Some (PNumber 10)
   \<and> production_properties ''proxyRetryMs'' = Some (PNumber 500)
   \<and> production_properties ''compilationStaleAfterMs'' = Some (PNumber 60000)
   \<and> retry_budget production_properties = Some 5000
   \<and> stale_deadline production_properties = Some 60000
   \<and> the (retry_budget production_properties) \<le> the (stale_deadline production_properties)"
  by (simp add: production_properties_def retry_budget_def stale_deadline_def)

text \<open>
  Claim C8. The flush interval is the operator's setting, with a default of five minutes.
  When \<open>compilationStatsNotifierFlushMs\<close> is not set, the noter's flush interval is
  300000 ms, and that is the delay \<open>noteCompilation\<close> gives \<open>setTimeout\<close> when it schedules
  the flush; when it is set to a value, that value is the interval and the delay.
\<close>

theorem flush_interval_default:
  "(p ''compilationStatsNotifierFlushMs'' = None \<longrightarrow>
      flushAfterMs (snd (StatsNoter_new p)) = PNumber 300000
      \<and> fst (noteCompilation getHash now request (snd (StatsNoter_new p)))
          = [SetTimeout (FlushTimeout (PNumber 300000))]
      \<and> flushJob (snd (noteCompilation getHash now request (snd (StatsNoter_new p))))
          = Some (FlushTimeout (PNumber 300000)))
   \<and> (p ''compilationStatsNotifierFlushMs'' = Some v \<longrightarrow>
      flushAfterMs (snd (StatsNoter_new p)) = v
      \<and> fst (noteCompilation getHash now request (snd (StatsNoter_new p)))
          = [SetTimeout (FlushTimeout v)]
      \<and> flushJob (snd (noteCompilation getHash now request (snd (StatsNoter_new p))))
          = Some (FlushTimeout v))"
  by (simp add: StatsNoter_new_def props_def noteCompilation_def Let_def)

text \<open>
  Settings that select the S3 noter and name a bucket, once with no flush interval and
  once with an interval of one second.
\<close>

theorem flush_interval_default_witness:
  "(map_of [(''compilationStatsNotifier'', PString ''S3''),
             (''compilationStatsNotifierS3Bucket'', PString ''logs'')]) ''compilationStatsNotifierFlushMs'' = None
   \<and> flushAfterMs (snd (StatsNoter_new (map_of [(''compilationStatsNotifier'', PString ''S3''),
             (''compilationStatsNotifierS3Bucket'', PString ''logs'')]))) = PNumber 300000
   \<and> fst (noteCompilation (\<lambda>v. ''h'') 1705314600000
         \<lparr> source = ''int x;'', options = [''-O1''], filters = [], bypassCache = False,
           tools = JNull, executionParameters = JNull, libraries = [] \<rparr>
         (snd (StatsNoter_new (map_of [(''compilationStatsNotifier'', PString ''S3''),
             (''compilationStatsNotifierS3Bucket'', PString ''logs'')]))))
       = [SetTimeout (FlushTimeout (PNumber 300000))]
   \<and> (map_of [(''compilationStatsNotifier'', PString ''S3''),
             (''compilationStatsNotifierS3Bucket'', PString ''logs''),
             (''compilationStatsNotifierFlushMs'', PNumber 1000)]) ''compilationStatsNotifierFlushMs'' = Some (PNumber 1000)
   \<and> flushAfterMs (snd (StatsNoter_new (map_of [(''compilationStatsNotifier'', PString ''S3''),
             (''compilationStatsNotifierS3Bucket'', PString ''logs''),
             (''compilationStatsNotifierFlushMs'', PNumber 1000)]))) = PNumber 1000
   \<and> fst (noteCompilation (\<lambda>v. ''h'') 1705314600000
         \<lparr> source = ''int x;'', options = [''-O1''], filters = [], bypassCache = False,
           tools = JNull, executionParameters = JNull, libraries = [] \<rparr>
         (snd (StatsNoter_new (map_of [(''compilationStatsNotifier'', PString ''S3''),
             (''compilationStatsNotifierS3Bucket'', PString ''logs''),
             (''compilationStatsNotifierFlushMs'', PNumber 1000)]))))
       = [SetTimeout (FlushTimeout (PNumber 1000))]"
  using flush_interval_default [where p = "(map_of [(''compilationStatsNotifier'', PString ''S3''),
             (''compilationStatsNotifierS3Bucket'', PString ''logs'')])" and getHash = "\<lambda>v. ''h''"
          and now = 1705314600000 and v = "PNumber 1000" and request = "\<lparr> source = ''int x;'', options = [''-O1''], filters = [], bypassCache = False,
           tools = JNull, executionParameters = JNull, libraries = [] \<rparr>"]
        flush_interval_default [where p = "(map_of [(''compilationStatsNotifier'', PString ''S3''),
             (''compilationStatsNotifierS3Bucket'', PString ''logs''),
             (''compilationStatsNotifierFlushMs'', PNumber 1000)])" and getHash = "\<lambda>v. ''h''"
          and now = 1705314600000 and v = "PNumber 1000" and request = "\<lparr> source = ''int x;'', options = [''-O1''], filters = [], bypassCache = False,
           tools = JNull, executionParameters = JNull, libraries = [] \<rparr>"]
  by simp

text \<open>
  Claim C10. \<open>createStatsNoter\<close> returns the no-op noter when \<open>compilationStatsNotifier\<close>
  is exactly \<open>none\<close>, the S3 noter built by the constructor when it is exactly \<open>S3\<close>, and
  throws \<open>Unknown stats type '...'\<close> for every other value, the unset property (read as the
  empty string) included; the value of the production settings,
  \<open>S3(compiler-explorer-logs,compile-stats,us-east-1,15m)\<close>, is such a value.
\<close>

theorem createStatsNoter_cases:
  "(p ''compilationStatsNotifier'' = Some (PString ''none'')
      \<longrightarrow> createStatsNoter p = Inr ([], NullStatsNoter))
   \<and> (p ''compilationStatsNotifier'' = Some (PString ''S3'')
      \<longrightarrow> createStatsNoter p = Inr (fst (StatsNoter_new p), S3StatsNoter (snd (StatsNoter_new p))))
   \<and> (p ''compilationStatsNotifier'' \<noteq> Some (PString ''none'')
      \<and> p ''compilationStatsNotifier'' \<noteq> Some (PString ''S3'')
      \<longrightarrow> createStatsNoter p
          = Inl (Error (''Unknown stats type '' @ [CHR 0x27]
                          @ template_str (props p ''compilationStatsNotifier'' (PString []))
                          @ [CHR 0x27])))
   \<and> createStatsNoter production_properties
       = Inl (Error (''Unknown stats type '' @ [CHR 0x27]
                       @ ''S3(compiler-explorer-logs,compile-stats,us-east-1,15m)'' @ [CHR 0x27]))"
proof -
  have none: "p ''compilationStatsNotifier'' = Some (PString ''none'')
      \<longrightarrow> createStatsNoter p = Inr ([], NullStatsNoter)"
    by (simp add: createStatsNoter_def props_def)
  have s3: "p ''compilationStatsNotifier'' = Some (PString ''S3'')
      \<longrightarrow> createStatsNoter p = Inr (fst (StatsNoter_new p), S3StatsNoter (snd (StatsNoter_new p)))"
    by (simp add: createStatsNoter_def props_def split: prod.splits)
  have other: "p ''compilationStatsNotifier'' \<noteq> Some (PString ''none'')
      \<and> p ''compilationStatsNotifier'' \<noteq> Some (PString ''S3'')
      \<longrightarrow> createStatsNoter p
          = Inl (Error (''Unknown stats type '' @ [CHR 0x27]
                          @ template_str (props p ''compilationStatsNotifier'' (PString []))
                          @ [CHR 0x27]))"
    by (auto simp: createStatsNoter_def props_def split: option.splits)
  have prod: "createStatsNoter production_properties
       = Inl (Error (''Unknown stats type '' @ [CHR 0x27]
                       @ ''S3(compiler-explorer-logs,compile-stats,us-east-1,15m)'' @ [CHR 0x27]))"
    by (simp add: createStatsNoter_def props_def production_properties_def)
  from none s3 other prod show ?thesis by blast
qed

text \<open>
  The three cases at settings that hold \<open>none\<close>, \<open>S3\<close>, nothing, and \<open>s3\<close> in lower case.
\<close>

theorem createStatsNoter_cases_witness:
  "createStatsNoter (map_of [(''compilationStatsNotifier'', PString ''none'')]) = Inr ([], NullStatsNoter)
   \<and> (\<exists>es noter. createStatsNoter (map_of [(''compilationStatsNotifier'', PString ''S3'')])
                    = Inr (es, S3StatsNoter noter))
   \<and> createStatsNoter Map.empty = Inl (Error (''Unknown stats type '' @ [CHR 0x27] @ [CHR 0x27]))
   \<and> createStatsNoter (map_of [(''compilationStatsNotifier'', PString ''s3'')])
       = Inl (Error (''Unknown stats type '' @ [CHR 0x27] @ ''s3'' @ [CHR 0x27]))"
  using createStatsNoter_cases [of "map_of [(''compilationStatsNotifier'', PString ''none'')]"]
        createStatsNoter_cases [of "map_of [(''compilationStatsNotifier'', PString ''S3'')]"]
        createStatsNoter_cases [of "Map.empty"]
        createStatsNoter_cases [of "map_of [(''compilationStatsNotifier'', PString ''s3'')]"]
  by (simp add: props_def)

section \<open>In-flight work\<close>

lemma remove_unit_inv: "orch_inv s \<Longrightarrow> orch_inv (remove_unit f s)"
  by (auto simp: orch_inv_def remove_unit_def distinct_remove1 split: option.splits)

lemma orch_step_inv: "orch_inv s \<Longrightarrow> orch_inv (orch_step e s)"
proof (cases e)
  case (Arrive c f k)
  assume inv: "orch_inv s"
  show ?thesis
  proof (cases "registry s f")
    case None
    with inv have "f \<notin> set (executing s)" by (auto simp: orch_inv_def)
    with inv None show ?thesis by (auto simp: Arrive orch_inv_def)
  next
    case (Some u)
    with inv show ?thesis by (cases u) (auto simp: Arrive orch_inv_def)
  qed
next
  case (Complete f)
  assume "orch_inv s"
  then show ?thesis by (simp add: Complete remove_unit_inv)
next
  case (Abandon f)
  assume "orch_inv s"
  then show ?thesis by (simp add: Abandon remove_unit_inv)
qed

lemma orch_run_inv: "orch_inv s \<Longrightarrow> orch_inv (orch_run evs s)"
  by (induction evs arbitrary: s) (simp_all add: orch_step_inv)

lemma orch_init_inv: "orch_inv orch_init"
  by (simp add: orch_inv_def orch_init_def)

lemma distinct_count_le_1: "distinct xs \<Longrightarrow> count_list xs x \<le> 1"
  by (induction xs) (auto simp: count_list_0_iff)

text \<open>
  Claim C1, on the registry modelled from the spec. In every state the orchestrator
  reaches from the empty registry by arrivals, completions and abandonments in any
  interleaving, each Fingerprint has at most one execution in progress; and a request that
  arrives while a unit of work for its Fingerprint is outstanding starts no execution: it
  is appended to the callers attached to that unit.
\<close>

theorem one_execution_per_fingerprint:
  "count_list (executing (orch_run evs orch_init)) f \<le> 1
   \<and> (registry (orch_run evs orch_init) f \<noteq> None
       \<longrightarrow> executing (orch_step (Arrive c f k) (orch_run evs orch_init))
             = executing (orch_run evs orch_init)
           \<and> (\<exists>k' cs. registry (orch_run evs orch_init) f = Some (k', cs)
                 \<and> registry (orch_step (Arrive c f k) (orch_run evs orch_init)) f
                     = Some (k', cs @ [c])))"
proof -
  have "orch_inv (orch_run evs orch_init)"
    by (rule orch_run_inv) (rule orch_init_inv)
  then have "distinct (executing (orch_run evs orch_init))"
    by (simp add: orch_inv_def)
  then have one: "count_list (executing (orch_run evs orch_init)) f \<le> 1"
    by (rule distinct_count_le_1)
  have attach: "registry (orch_run evs orch_init) f \<noteq> None
       \<longrightarrow> executing (orch_step (Arrive c f k) (orch_run evs orch_init))
             = executing (orch_run evs orch_init)
           \<and> (\<exists>k' cs. registry (orch_run evs orch_init) f = Some (k', cs)
                 \<and> registry (orch_step (Arrive c f k) (orch_run evs orch_init)) f
                     = Some (k', cs @ [c]))"
    by (auto split: option.splits)
  from one attach show ?thesis by blast
qed

text \<open>
  Two requests for the same Fingerprint, the second arriving before the first completes:
  one execution, both callers attached to it.
\<close>

theorem one_execution_per_fingerprint_witness:
  "count_list (executing (orch_run [Arrive 1 ''F1'' PendingSlot] orch_init)) ''F1'' \<le> 1
   \<and> registry (orch_run [Arrive 1 ''F1'' PendingSlot] orch_init) ''F1'' = Some (PendingSlot, [1])
   \<and> executing (orch_run [Arrive 1 ''F1'' PendingSlot, Arrive 2 ''F1'' PendingSlot] orch_init) = [''F1'']
   \<and> registry (orch_run [Arrive 1 ''F1'' PendingSlot, Arrive 2 ''F1'' PendingSlot] orch_init) ''F1''
       = Some (PendingSlot, [1, 2])"
  using one_execution_per_fingerprint [of "[Arrive 1 ''F1'' PendingSlot]" "''F1''" 2 PendingSlot]
  by (simp add: orch_init_def)

end
